theory Spec2Isabelle
  imports Main "HOL-Library.AList"
begin

section \<open>Data model of the wallet state store\<close>

text \<open>
  The store of \<^verbatim>\<open>src/state/models/lightning.ts\<close> is an easy-peasy model: every action
  receives the current state and a payload and mutates a draft of the state. Each action
  is embedded as a function from the state and the payload to the new state. An action
  that throws leaves the state as it was and is embedded with a sum type.

  \<^verbatim>\<open>Result<T>\<close> of \<^verbatim>\<open>utils/result\<close> is the object built by \<^verbatim>\<open>ok(value)\<close> or
  \<^verbatim>\<open>err(message)\<close> and inspected with \<^verbatim>\<open>isOk()\<close> and \<^verbatim>\<open>isErr()\<close>.
\<close>

datatype 'a Result = Ok 'a | Err string

fun isOk :: "'a Result \<Rightarrow> bool" where
  "isOk (Ok v) = True"
| "isOk (Err e) = False"

fun isErr :: "'a Result \<Rightarrow> bool" where
  "isErr (Ok v) = False"
| "isErr (Err e) = True"

datatype EPaymentType = sent | received

text \<open>
  \<^verbatim>\<open>TInvoice\<close> and \<^verbatim>\<open>TChannel\<close> are types of the node engine's library; the fields
  kept here are the ones the store and the coordinator read or write. Timestamps and
  expiry durations are whole numbers of seconds.
\<close>

record TInvoice =
  payment_hash :: string
  payee_pub_key :: string
  timestamp :: int
  expiry_time :: int
  to_str :: string
  description :: "string option"
  amount_satoshis :: "int option"

record TChannel =
  channel_id :: string
  is_usable :: bool
  balance_sat :: int

text \<open>
  A payment as the store holds it: the invoice, the direction (property \<^verbatim>\<open>type\<close>) and
  the auxiliary metadata (tags, notes, contacts), kept as a map from property name to
  value. A property that an object does not carry is \<open>None\<close>.
\<close>

record TLightningPayment =
  invoice :: TInvoice
  payment_type :: "EPaymentType option"
  metadata :: "string \<rightharpoonup> string"

record TIdentifier =
  identifier_id :: string
  label :: string
  address :: string

text \<open>
  A contact: \<^verbatim>\<open>id\<close> is the only required property; \<open>contact_alias\<close> is the
  property \<^verbatim>\<open>alias\<close>. \<^verbatim>\<open>items\<close> is the property that \<^verbatim>\<open>deleteContactAddress\<close>
  writes beside \<^verbatim>\<open>identifiers\<close>.
\<close>

record TContact =
  contact_id :: string
  contact_alias :: "string option"
  date_added :: "int option"
  identifiers :: "TIdentifier list option"
  items :: "TIdentifier list option"

text \<open>
  The state of the model. \<^verbatim>\<open>payments\<close> is an object used as a dictionary; its entries
  are kept in insertion order (the order \<^verbatim>\<open>Object.values\<close> enumerates string keys that
  are not array indices), so it is an association list with distinct keys.
\<close>

record LightningNodeModelType =
  nodeId :: "string option"
  nodeStarted :: bool
  ldkVersion :: "string \<times> string"
  channels :: "string \<rightharpoonup> TChannel"
  openChannelIds :: "string list"
  invoices :: "TInvoice list"
  payments :: "(string \<times> TLightningPayment) list"
  peers :: "string list"
  contacts :: "TContact list"
  claimableBalance :: int
  maxReceivable :: int
  defaultPRDescription :: string
  defaultPRExpiry :: int

definition lightningModel :: LightningNodeModelType where
  "lightningModel =
     \<lparr> nodeId = None, nodeStarted = False, ldkVersion = ('''', ''''),
       channels = Map.empty, openChannelIds = [], invoices = [], payments = [],
       peers = [], contacts = [], claimableBalance = 0, maxReceivable = 0,
       defaultPRDescription = ''Invoice from EttaWallet'', defaultPRExpiry = 604800 \<rparr>"

section \<open>Actions of the store\<close>

definition setNodeId :: "LightningNodeModelType \<Rightarrow> string \<Rightarrow> LightningNodeModelType" where
  "setNodeId state payload = state\<lparr>nodeId := Some payload\<rparr>"

definition setLdkVersion ::
  "LightningNodeModelType \<Rightarrow> string \<times> string \<Rightarrow> LightningNodeModelType" where
  "setLdkVersion state payload = state\<lparr>ldkVersion := payload\<rparr>"

definition addInvoice :: "LightningNodeModelType \<Rightarrow> TInvoice \<Rightarrow> LightningNodeModelType" where
  "addInvoice state payload = state\<lparr>invoices := invoices state @ [payload]\<rparr>"

text \<open>
  \<^verbatim>\<open>removeExpiredInvoices\<close> reads the clock: \<^verbatim>\<open>Math.floor(Date.now() / 1000)\<close>. The
  reading of \<^verbatim>\<open>Date.now()\<close>, in milliseconds, is the parameter \<open>dateNow\<close>.
\<close>

definition removeExpiredInvoices :: "int \<Rightarrow> LightningNodeModelType \<Rightarrow> LightningNodeModelType" where
  "removeExpiredInvoices dateNow state =
     (let nowInSecs = dateNow div 1000
      in state\<lparr>invoices :=
           filter (\<lambda>invoice. timestamp invoice + expiry_time invoice > nowInSecs)
             (invoices state)\<rparr>)"

text \<open>
  \<^verbatim>\<open>updateInvoice\<close>: the payload carries \<^verbatim>\<open>payment_hash\<close> and
  \<^verbatim>\<open>modified_request\<close>.
\<close>

definition updateInvoice ::
  "LightningNodeModelType \<Rightarrow> string \<Rightarrow> string \<Rightarrow> LightningNodeModelType" where
  "updateInvoice state hash modified_request =
     state\<lparr>invoices :=
       map (\<lambda>invoice. if payment_hash invoice = hash
                       then invoice\<lparr>to_str := modified_request\<rparr> else invoice)
         (invoices state)\<rparr>"

text \<open>
  \<^verbatim>\<open>findIndex\<close> followed by \<^verbatim>\<open>splice(index, 1)\<close>: the first element that satisfies
  the test is removed, and nothing is removed when there is none.
\<close>

fun remove_first :: "('a \<Rightarrow> bool) \<Rightarrow> 'a list \<Rightarrow> 'a list" where
  "remove_first P [] = []"
| "remove_first P (x # xs) = (if P x then xs else x # remove_first P xs)"

definition removeInvoice :: "LightningNodeModelType \<Rightarrow> string \<Rightarrow> LightningNodeModelType" where
  "removeInvoice state payload =
     state\<lparr>invoices := remove_first (\<lambda>invoice. payment_hash invoice = payload) (invoices state)\<rparr>"

text \<open>
  \<^verbatim>\<open>updateChannels\<close>: the payload is a partial state, of which the action reads
  \<^verbatim>\<open>channels\<close> and \<^verbatim>\<open>openChannelIds\<close>; a missing property is \<open>None\<close>
  (\<^verbatim>\<open>?? {}\<close> and \<^verbatim>\<open>?? []\<close>). The spread of two objects is the override of maps.
\<close>

record TChannelsPayload =
  payload_channels :: "(string \<rightharpoonup> TChannel) option"
  payload_openChannelIds :: "string list option"

definition updateChannels ::
  "LightningNodeModelType \<Rightarrow> TChannelsPayload \<Rightarrow> LightningNodeModelType" where
  "updateChannels state payload =
     (let merged = channels state ++
            (case payload_channels payload of None \<Rightarrow> Map.empty | Some cs \<Rightarrow> cs);
          newChannelIds =
            (case payload_openChannelIds payload of None \<Rightarrow> [] | Some ids \<Rightarrow> ids);
          uniqueIds = filter (\<lambda>id. id \<notin> set (openChannelIds state)) newChannelIds
      in state\<lparr>channels := merged, openChannelIds := openChannelIds state @ uniqueIds\<rparr>)"

text \<open>
  \<^verbatim>\<open>addPayment\<close> writes the key \<^verbatim>\<open>invoice.payment_hash\<close> of a spread copy of the
  dictionary: an existing key keeps its place and takes the new value, a new key goes
  last. The stored object has the two properties \<^verbatim>\<open>invoice\<close> and \<^verbatim>\<open>type\<close>; the
  comparison \<^verbatim>\<open>payee_pub_key === state.nodeId\<close> is false when the node id is null.
\<close>

definition addPayment ::
  "LightningNodeModelType \<Rightarrow> TLightningPayment \<Rightarrow> LightningNodeModelType" where
  "addPayment state payload =
     state\<lparr>payments :=
       AList.update (payment_hash (invoice payload))
         \<lparr> invoice = invoice payload,
           payment_type =
             Some (if Some (payee_pub_key (invoice payload)) = nodeId state
                   then received else sent),
           metadata = Map.empty \<rparr>
         (payments state)\<rparr>"

text \<open>
  \<^verbatim>\<open>Object.assign(payment, payload)\<close> copies every property the payload carries onto
  the stored payment and leaves the others.
\<close>

definition object_assign :: "TLightningPayment \<Rightarrow> TLightningPayment \<Rightarrow> TLightningPayment" where
  "object_assign target source =
     \<lparr> invoice = invoice source,
       payment_type =
         (case payment_type source of None \<Rightarrow> payment_type target | Some t \<Rightarrow> Some t),
       metadata = metadata target ++ metadata source \<rparr>"

text \<open>
  \<^verbatim>\<open>Object.values(state.payments).filter(...)[0]\<close> is the first payment, in the order
  of the dictionary, whose invoice has the payload's payment hash; it is mutated in place.
\<close>

fun update_first ::
  "('v \<Rightarrow> bool) \<Rightarrow> ('v \<Rightarrow> 'v) \<Rightarrow> ('k \<times> 'v) list \<Rightarrow> ('k \<times> 'v) list" where
  "update_first P f [] = []"
| "update_first P f ((k, v) # kvs) =
     (if P v then (k, f v) # kvs else (k, v) # update_first P f kvs)"

definition updatePayment ::
  "LightningNodeModelType \<Rightarrow> TLightningPayment \<Rightarrow> LightningNodeModelType" where
  "updatePayment state payload =
     state\<lparr>payments :=
       update_first (\<lambda>p. payment_hash (invoice p) = payment_hash (invoice payload))
         (\<lambda>payment. object_assign payment payload) (payments state)\<rparr>"

definition addPeer :: "LightningNodeModelType \<Rightarrow> string \<Rightarrow> LightningNodeModelType" where
  "addPeer state payload = state\<lparr>peers := peers state @ [payload]\<rparr>"

definition addContact :: "LightningNodeModelType \<Rightarrow> TContact \<Rightarrow> LightningNodeModelType" where
  "addContact state payload = state\<lparr>contacts := contacts state @ [payload]\<rparr>"

text \<open>\<^verbatim>\<open>contact.identifiers || []\<close>: an array, even an empty one, is truthy.\<close>

definition identifiers_or_empty :: "TContact \<Rightarrow> TIdentifier list" where
  "identifiers_or_empty contact =
     (case identifiers contact of None \<Rightarrow> [] | Some ids \<Rightarrow> ids)"

text \<open>
  \<^verbatim>\<open>{...contact, ...updatedContact, identifiers: mergedIdentifiers}\<close>: every property
  the payload carries overwrites the contact's, the others are kept, and
  \<^verbatim>\<open>identifiers\<close> is set last.
\<close>

definition merge_contact :: "TContact \<Rightarrow> TContact \<Rightarrow> TContact" where
  "merge_contact contact updatedContact =
     (let mergedIdentifiers =
            (case identifiers updatedContact of
               Some new \<Rightarrow> identifiers_or_empty contact @ new
             | None \<Rightarrow> identifiers_or_empty contact)
      in \<lparr> contact_id = contact_id updatedContact,
           contact_alias =
             (case contact_alias updatedContact of
                None \<Rightarrow> contact_alias contact | Some a \<Rightarrow> Some a),
           date_added =
             (case date_added updatedContact of
                None \<Rightarrow> date_added contact | Some d \<Rightarrow> Some d),
           identifiers = Some mergedIdentifiers,
           items =
             (case items updatedContact of None \<Rightarrow> items contact | Some its \<Rightarrow> Some its) \<rparr>)"

text \<open>
  \<^verbatim>\<open>if (contactId && updatedContact)\<close>: the empty string is falsy, an object is
  truthy.
\<close>

definition updateContact ::
  "LightningNodeModelType \<Rightarrow> string \<Rightarrow> TContact \<Rightarrow> LightningNodeModelType" where
  "updateContact state contactId updatedContact =
     (if contactId \<noteq> []
      then state\<lparr>contacts :=
             map (\<lambda>contact. if contact_id contact = contactId
                             then merge_contact contact updatedContact else contact)
               (contacts state)\<rparr>
      else state)"

definition deleteContact :: "LightningNodeModelType \<Rightarrow> string \<Rightarrow> LightningNodeModelType" where
  "deleteContact state payload =
     state\<lparr>contacts := remove_first (\<lambda>contact. contact_id contact = payload) (contacts state)\<rparr>"

text \<open>
  \<^verbatim>\<open>deleteContactAddress\<close> maps over the contacts twice. Both callbacks read
  \<^verbatim>\<open>contact.identifiers!.filter\<close>, which throws a TypeError on a contact that has
  no \<^verbatim>\<open>identifiers\<close> property; the action then ends without a new state.
\<close>

datatype js_error = TypeError

fun map_throwing :: "('a \<Rightarrow> js_error + 'b) \<Rightarrow> 'a list \<Rightarrow> js_error + 'b list" where
  "map_throwing f [] = Inr []"
| "map_throwing f (x # xs) =
     (case f x of
        Inl e \<Rightarrow> Inl e
      | Inr y \<Rightarrow> (case map_throwing f xs of Inl e \<Rightarrow> Inl e | Inr ys \<Rightarrow> Inr (y # ys)))"

definition filter_identifiers :: "string \<Rightarrow> TContact \<Rightarrow> js_error + TIdentifier list" where
  "filter_identifiers addressId contact =
     (case identifiers contact of
        None \<Rightarrow> Inl TypeError
      | Some ids \<Rightarrow> Inr (filter (\<lambda>identity. identifier_id identity \<noteq> addressId) ids))"

definition deleteContactAddress ::
  "LightningNodeModelType \<Rightarrow> string \<Rightarrow> string \<Rightarrow> js_error + LightningNodeModelType" where
  "deleteContactAddress state contactId addressId =
     (case map_throwing
             (\<lambda>contact.
                if contact_id contact = contactId
                then (case filter_identifiers addressId contact of
                        Inl e \<Rightarrow> Inl e
                      | Inr updatedIdentifiers \<Rightarrow>
                          Inr (contact\<lparr>identifiers := Some updatedIdentifiers\<rparr>))
                else Inr contact)
             (contacts state) of
        Inl e \<Rightarrow> Inl e
      | Inr contacts1 \<Rightarrow>
          (case map_throwing
                  (\<lambda>contact.
                     case filter_identifiers addressId contact of
                       Inl e \<Rightarrow> Inl e
                     | Inr updatedIdentifiers \<Rightarrow>
                         Inr (contact\<lparr>items := Some updatedIdentifiers\<rparr>))
                  contacts1 of
             Inl e \<Rightarrow> Inl e
           | Inr contacts2 \<Rightarrow> Inr (state\<lparr>contacts := contacts2\<rparr>)))"

section \<open>The node lifecycle and synchronisation coordinator\<close>

text \<open>
  The functions of \<^verbatim>\<open>src/ldk/index.ts\<close> are asynchronous and talk to the node engine,
  to the chain-data source and to the store. Their effects are threaded through a
  \<open>world\<close>: the store, the module variable \<^verbatim>\<open>LDKIsStayingSynced\<close> and the list of
  the calls made so far to the engine, the chain-data source and the helpers, in order.
  What an external call answers is a parameter of the function that makes the call.
  The \<^verbatim>\<open>selectedNetwork\<close> argument is only passed along and is left out.
\<close>

datatype event =
    LdkReset
  | GetLdkAccount
  | SetLdkStoragePath
  | LmStart string
  | LdkNodeId
  | UpdateLdkVersion
  | RefreshLdk
  | SubscribeToPayments
  | Sleep int
  | GetScriptPubKeyHistory string
  | GetTransactionData string
  | SetTxConfirmed string int "(string \<times> nat) list"

record world =
  store :: LightningNodeModelType
  LDKIsStayingSynced :: bool
  calls :: "event list"

definition call :: "event \<Rightarrow> world \<Rightarrow> world" where
  "call e w = w\<lparr>calls := calls w @ [e]\<rparr>"

text \<open>
  An awaited call either returns a value or throws (the promise is rejected); \<open>Throws s\<close>
  carries the string \<^verbatim>\<open>e.toString()\<close> of what was thrown.
\<close>

datatype 'a returned = Returns 'a | Throws string

subsection \<open>keepLdkSynced\<close>

text \<open>
  \<^verbatim>\<open>if (!syncRes)\<close> tests the truthiness of the value \<^verbatim>\<open>refreshLdk\<close> resolves to.
  \<^verbatim>\<open>refreshLdk\<close> returns \<^verbatim>\<open>ok(...)\<close> or \<^verbatim>\<open>err(...)\<close> on every path, its whole body
  being inside \<^verbatim>\<open>try\<close>/\<^verbatim>\<open>catch\<close>; both are objects, and every object is truthy.
\<close>

fun truthy_Result :: "'a Result \<Rightarrow> bool" where
  "truthy_Result (Ok v) = True"
| "truthy_Result (Err e) = True"

text \<open>
  The state of the loop: the local variable \<^verbatim>\<open>error\<close>, the number of calls of
  \<^verbatim>\<open>refreshLdk\<close> made so far, and the world. \<open>refreshLdk k\<close> is what the call number
  \<open>k\<close> (from 0) resolves to. One run of the loop body:
\<close>

record TSyncLoop =
  loop_error :: string
  loop_attempts :: nat
  loop_world :: world

definition keepLdkSynced_body :: "(nat \<Rightarrow> string Result) \<Rightarrow> int \<Rightarrow> TSyncLoop \<Rightarrow> TSyncLoop" where
  "keepLdkSynced_body refreshLdk frequency l =
     (let syncRes = refreshLdk (loop_attempts l);
          w = call RefreshLdk (loop_world l)
      in if \<not> truthy_Result syncRes
         then \<lparr> loop_error = ''Could not refresh LDK.'',
                loop_attempts = Suc (loop_attempts l),
                loop_world = w\<lparr>LDKIsStayingSynced := False\<rparr> \<rparr>
         else \<lparr> loop_error = loop_error l,
                loop_attempts = Suc (loop_attempts l),
                loop_world = call (Sleep frequency) w \<rparr>)"

text \<open>
  \<^verbatim>\<open>while (!error)\<close>, with fuel: \<open>None\<close> is a loop that is still running when the fuel
  is used up.
\<close>

fun keepLdkSynced_loop ::
  "nat \<Rightarrow> (nat \<Rightarrow> string Result) \<Rightarrow> int \<Rightarrow> TSyncLoop \<Rightarrow> world option" where
  "keepLdkSynced_loop 0 refreshLdk frequency l =
     (if loop_error l \<noteq> [] then Some (loop_world l) else None)"
| "keepLdkSynced_loop (Suc fuel) refreshLdk frequency l =
     (if loop_error l \<noteq> [] then Some (loop_world l)
      else keepLdkSynced_loop fuel refreshLdk frequency
             (keepLdkSynced_body refreshLdk frequency l))"

definition keepLdkSynced_start :: "world \<Rightarrow> TSyncLoop" where
  "keepLdkSynced_start w =
     \<lparr> loop_error = [], loop_attempts = 0, loop_world = w\<lparr>LDKIsStayingSynced := True\<rparr> \<rparr>"

definition keepLdkSynced ::
  "nat \<Rightarrow> (nat \<Rightarrow> string Result) \<Rightarrow> int \<Rightarrow> world \<Rightarrow> world option" where
  "keepLdkSynced fuel refreshLdk frequency w =
     (if LDKIsStayingSynced w then Some w
      else keepLdkSynced_loop fuel refreshLdk frequency (keepLdkSynced_start w))"

subsection \<open>setupLdk\<close>

text \<open>
  What the calls made by \<^verbatim>\<open>setupLdk\<close> answer: \<^verbatim>\<open>resetLdk\<close>, \<^verbatim>\<open>getLdkAccount\<close>
  (the account material of secure storage), \<^verbatim>\<open>setLdkStoragePath\<close>, \<^verbatim>\<open>lm.start\<close>,
  \<^verbatim>\<open>ldk.nodeId\<close> and \<^verbatim>\<open>ldk.version\<close>. The calls to the engine and to secure storage
  do not write the store.
\<close>

record TSetupEnv =
  env_resetLdk :: "string Result returned"
  env_getLdkAccount :: "string Result returned"
  env_setLdkStoragePath :: "string Result returned"
  env_lmStart :: "string \<Rightarrow> string Result returned"
  env_nodeId :: "string Result returned"
  env_version :: "(string \<times> string) Result"

text \<open>
  Modelled from the spec: the helper \<^verbatim>\<open>updateLdkNodeId\<close> of
  \<^verbatim>\<open>utils/lightning/helpers\<close> is not among the sources; on success of the start, the
  node identity is recorded into the store.
\<close>

definition updateLdkNodeId :: "string \<Rightarrow> world \<Rightarrow> world" where
  "updateLdkNodeId nid w = w\<lparr>store := setNodeId (store w) nid\<rparr>"

text \<open>
  Modelled from the spec: the helper \<^verbatim>\<open>updateLdkVersion\<close> of
  \<^verbatim>\<open>utils/lightning/helpers\<close> is not among the sources; the version the engine
  reports is recorded into the store.
\<close>

definition updateLdkVersion :: "TSetupEnv \<Rightarrow> world \<Rightarrow> world" where
  "updateLdkVersion env w =
     (case env_version env of
        Ok v \<Rightarrow> (call UpdateLdkVersion w)\<lparr>store := setLdkVersion (store w) v\<rparr>
      | Err e \<Rightarrow> call UpdateLdkVersion w)"

text \<open>
  The body of \<^verbatim>\<open>setupLdk\<close> is inside \<^verbatim>\<open>try\<close>/\<^verbatim>\<open>catch\<close>: a call that throws ends
  the function with \<^verbatim>\<open>err(e.toString())\<close>. The sync pass of the last step and the
  subscription to the engine's events are recorded as calls.
\<close>

definition setupLdk :: "TSetupEnv \<Rightarrow> bool \<Rightarrow> world \<Rightarrow> string Result \<times> world" where
  "setupLdk env shouldRefreshLdk w =
     (let w1 = call LdkReset w in
      case env_resetLdk env of
        Throws e \<Rightarrow> (Err e, w1)
      | Returns _ \<Rightarrow>
     (let w2 = call GetLdkAccount w1 in
      case env_getLdkAccount env of
        Throws e \<Rightarrow> (Err e, w2)
      | Returns (Err m) \<Rightarrow> (Err m, w2)
      | Returns (Ok account) \<Rightarrow>
     (let w3 = call SetLdkStoragePath w2 in
      case env_setLdkStoragePath env of
        Throws e \<Rightarrow> (Err e, w3)
      | Returns (Err m) \<Rightarrow> (Err m, w3)
      | Returns (Ok _) \<Rightarrow>
     (let w4 = call (LmStart account) w3 in
      case env_lmStart env account of
        Throws e \<Rightarrow> (Err e, w4)
      | Returns (Err m) \<Rightarrow> (Err (''@lmStart: '' @ m), w4)
      | Returns (Ok _) \<Rightarrow>
     (let w5 = call LdkNodeId w4 in
      case env_nodeId env of
        Throws e \<Rightarrow> (Err e, w5)
      | Returns (Err m) \<Rightarrow> (Err m, w5)
      | Returns (Ok nid) \<Rightarrow>
     (let w6 = updateLdkVersion env (updateLdkNodeId nid w5);
          w7 = (if shouldRefreshLdk then call RefreshLdk w6 else w6);
          w8 = call SubscribeToPayments w7
      in (Ok (''LDK NodeID: '' @ nid), w8)))))))"

subsection \<open>checkWatchTxs\<close>

text \<open>
  An entry of \<^verbatim>\<open>lm.watchTxs\<close>, an entry of a script's history, and the transaction
  data \<^verbatim>\<open>_getTransactionData\<close> returns (of which \<^verbatim>\<open>checkWatchTxs\<close> reads the header,
  the height and the raw transaction).
\<close>

record TWatchTx =
  watch_txid :: string
  watch_script_pubkey :: string

record THistoryItem =
  history_txid :: string
  history_height :: int

record TTransactionData =
  tx_header :: string
  tx_height :: int
  tx_transaction :: string

text \<open>
  The inner loop over a script's history stops at the first entry whose transaction id is
  not among \<^verbatim>\<open>watchTransactionIds\<close>.
\<close>

fun scan_history :: "string list \<Rightarrow> THistoryItem list \<Rightarrow> THistoryItem option" where
  "scan_history watchTransactionIds [] = None"
| "scan_history watchTransactionIds (d # ds) =
     (if history_txid d \<notin> set watchTransactionIds then Some d
      else scan_history watchTransactionIds ds)"

text \<open>
  The outer loop over \<^verbatim>\<open>lm.watchTxs\<close>. \<open>getScriptPubKeyHistory\<close> and
  \<open>getTransactionData\<close> are the answers of the chain-data source; \<open>log\<close> collects the
  calls made. \<^verbatim>\<open>ldk.setTxConfirmed\<close> gets the header, the height and the raw
  transaction of the fetched transaction data, with the position 0. The result is the
  returned boolean and the calls.
\<close>

fun checkWatchTxs_loop ::
  "(string \<Rightarrow> THistoryItem list) \<Rightarrow> (string \<Rightarrow> TTransactionData) \<Rightarrow> string list \<Rightarrow>
   string list \<Rightarrow> TWatchTx list \<Rightarrow> event list \<Rightarrow> bool \<times> event list" where
  "checkWatchTxs_loop getScriptPubKeyHistory getTransactionData watchTransactionIds
     checkedScriptPubKeys [] log = (False, log)"
| "checkWatchTxs_loop getScriptPubKeyHistory getTransactionData watchTransactionIds
     checkedScriptPubKeys (watchTx # rest) log =
     (if watch_script_pubkey watchTx \<notin> set checkedScriptPubKeys
      then (let scriptPubKeyHistory = getScriptPubKeyHistory (watch_script_pubkey watchTx);
                log1 = log @ [GetScriptPubKeyHistory (watch_script_pubkey watchTx)]
            in case scan_history watchTransactionIds scriptPubKeyHistory of
                 Some d \<Rightarrow>
                   (let txData = getTransactionData (history_txid d)
                    in (True,
                        log1 @
                          [GetTransactionData (history_txid d),
                           SetTxConfirmed (tx_header txData) (tx_height txData)
                             [(tx_transaction txData, 0)]]))
               | None \<Rightarrow>
                   checkWatchTxs_loop getScriptPubKeyHistory getTransactionData
                     watchTransactionIds
                     (checkedScriptPubKeys @ [watch_script_pubkey watchTx]) rest log1)
      else checkWatchTxs_loop getScriptPubKeyHistory getTransactionData watchTransactionIds
             checkedScriptPubKeys rest log)"

definition checkWatchTxs ::
  "(string \<Rightarrow> THistoryItem list) \<Rightarrow> (string \<Rightarrow> TTransactionData) \<Rightarrow> TWatchTx list \<Rightarrow>
   bool \<times> event list" where
  "checkWatchTxs getScriptPubKeyHistory getTransactionData watchTxs =
     (let watchTransactionIds = map watch_txid watchTxs
      in checkWatchTxs_loop getScriptPubKeyHistory getTransactionData watchTransactionIds
           [] watchTxs [])"

subsection \<open>Payment events\<close>

text \<open>\<^verbatim>\<open>getPendingInvoice\<close>: the first stored invoice with the payment hash.\<close>

definition getPendingInvoice :: "LightningNodeModelType \<Rightarrow> string \<Rightarrow> TInvoice Result" where
  "getPendingInvoice state paymentHash =
     (let invoice = filter (\<lambda>i. payment_hash i = paymentHash) (invoices state)
      in case invoice of
           found # _ \<Rightarrow> Ok found
         | [] \<Rightarrow> Err ''Unable to find any pending invoices.'')"

text \<open>
  Modelled from the spec: the helper \<^verbatim>\<open>addPayment\<close> of \<^verbatim>\<open>utils/lightning/helpers\<close>
  is not among the sources; it creates a payment record for the invoice, with the
  direction inferred by the store's \<^verbatim>\<open>addPayment\<close> action, and appends it to the state.
\<close>

definition helpers_addPayment :: "TInvoice \<Rightarrow> world \<Rightarrow> world" where
  "helpers_addPayment found w =
     w\<lparr>store := addPayment (store w)
                  \<lparr> invoice = found, payment_type = None, metadata = Map.empty \<rparr>\<rparr>"

text \<open>
  \<^verbatim>\<open>handlePaymentSubscription\<close> for an event that carries \<open>paymentHash\<close>. The sync it
  awaits at the end is recorded as the call \<open>RefreshLdk\<close>.
\<close>

definition handlePaymentSubscription :: "string \<Rightarrow> world \<Rightarrow> world" where
  "handlePaymentSubscription paymentHash w =
     (case getPendingInvoice (store w) paymentHash of
        Ok found \<Rightarrow> call RefreshLdk (helpers_addPayment found w)
      | Err e \<Rightarrow> w)"

section \<open>Notions used by the properties\<close>

text \<open>The open-channel ids a payload of \<^verbatim>\<open>updateChannels\<close> carries.\<close>

definition payload_ids :: "TChannelsPayload \<Rightarrow> string list" where
  "payload_ids payload =
     (case payload_openChannelIds payload of None \<Rightarrow> [] | Some ids \<Rightarrow> ids)"

text \<open>The identifiers of a contact other than the one of a given id.\<close>

definition without_address :: "string \<Rightarrow> TContact \<Rightarrow> TIdentifier list" where
  "without_address addressId contact =
     filter (\<lambda>identity. identifier_id identity \<noteq> addressId) (identifiers_or_empty contact)"

text \<open>Within every contact of the store, the identifiers have pairwise distinct ids.\<close>

definition identifiers_unique :: "LightningNodeModelType \<Rightarrow> bool" where
  "identifiers_unique state =
     list_all (\<lambda>contact. distinct (map identifier_id (identifiers_or_empty contact)))
       (contacts state)"

text \<open>The states reachable from the initial state through the four contact actions.\<close>

inductive contacts_reachable :: "LightningNodeModelType \<Rightarrow> bool" where
  reach_init: "contacts_reachable lightningModel"
| reach_addContact: "contacts_reachable state \<Longrightarrow> contacts_reachable (addContact state payload)"
| reach_updateContact:
    "contacts_reachable state \<Longrightarrow>
     contacts_reachable (updateContact state contactId updatedContact)"
| reach_deleteContact:
    "contacts_reachable state \<Longrightarrow> contacts_reachable (deleteContact state payload)"
| reach_deleteContactAddress:
    "contacts_reachable state \<Longrightarrow>
     deleteContactAddress state contactId addressId = Inr state' \<Longrightarrow>
     contacts_reachable state'"

text \<open>
  The states reachable when the callers supply fresh identifier ids: a contact is added
  with identifiers of pairwise distinct ids, and an update carries identifiers of pairwise
  distinct ids that none of the contacts it updates has yet.
\<close>

inductive contacts_reachable_fresh :: "LightningNodeModelType \<Rightarrow> bool" where
  fresh_init: "contacts_reachable_fresh lightningModel"
| fresh_addContact:
    "contacts_reachable_fresh state \<Longrightarrow>
     distinct (map identifier_id (identifiers_or_empty payload)) \<Longrightarrow>
     contacts_reachable_fresh (addContact state payload)"
| fresh_updateContact:
    "contacts_reachable_fresh state \<Longrightarrow>
     distinct (map identifier_id (identifiers_or_empty updatedContact)) \<Longrightarrow>
     \<forall>contact \<in> set (contacts state).
        contact_id contact = contactId \<longrightarrow>
        identifier_id ` set (identifiers_or_empty contact) \<inter>
        identifier_id ` set (identifiers_or_empty updatedContact) = {} \<Longrightarrow>
     contacts_reachable_fresh (updateContact state contactId updatedContact)"
| fresh_deleteContact:
    "contacts_reachable_fresh state \<Longrightarrow>
     contacts_reachable_fresh (deleteContact state payload)"
| fresh_deleteContactAddress:
    "contacts_reachable_fresh state \<Longrightarrow>
     deleteContactAddress state contactId addressId = Inr state' \<Longrightarrow>
     contacts_reachable_fresh state'"

text \<open>
  Of a list of calls: the calls of \<^verbatim>\<open>ldk.setTxConfirmed\<close>, the scripts whose history
  was fetched, and the starts of the engine.
\<close>

fun is_SetTxConfirmed :: "event \<Rightarrow> bool" where
  "is_SetTxConfirmed (SetTxConfirmed h n txs) = True"
| "is_SetTxConfirmed e = False"

definition setTxConfirmed_calls :: "event list \<Rightarrow> event list" where
  "setTxConfirmed_calls log = filter is_SetTxConfirmed log"

definition fetched_scripts :: "event list \<Rightarrow> string list" where
  "fetched_scripts log =
     concat (map (\<lambda>e. case e of GetScriptPubKeyHistory s \<Rightarrow> [s] | _ \<Rightarrow> []) log)"

fun is_LmStart :: "event \<Rightarrow> bool" where
  "is_LmStart (LmStart account) = True"
| "is_LmStart e = False"

text \<open>
  The history entries, script by script in the order of the watch-list, whose
  transaction id is not among the transaction ids of the watch-list.
\<close>

definition unseen_entries ::
  "(string \<Rightarrow> THistoryItem list) \<Rightarrow> TWatchTx list \<Rightarrow> THistoryItem list" where
  "unseen_entries getScriptPubKeyHistory watchTxs =
     filter (\<lambda>d. history_txid d \<notin> set (map watch_txid watchTxs))
       (concat (map (\<lambda>watchTx. getScriptPubKeyHistory (watch_script_pubkey watchTx)) watchTxs))"

text \<open>
  The elements of a list in the order of their first occurrence; the script-pubkeys of a
  watch-list in that order.
\<close>

fun first_occurrences :: "'a list \<Rightarrow> 'a list" where
  "first_occurrences [] = []"
| "first_occurrences (x # xs) = x # filter (\<lambda>y. y \<noteq> x) (first_occurrences xs)"

definition script_pubkeys_in_order :: "TWatchTx list \<Rightarrow> string list" where
  "script_pubkeys_in_order watchTxs = first_occurrences (map watch_script_pubkey watchTxs)"

text \<open>A script is idle when its history has no unseen entry.\<close>

definition idle_script ::
  "(string \<Rightarrow> THistoryItem list) \<Rightarrow> TWatchTx list \<Rightarrow> string \<Rightarrow> bool" where
  "idle_script getScriptPubKeyHistory watchTxs s =
     (filter (\<lambda>d. history_txid d \<notin> set (map watch_txid watchTxs))
        (getScriptPubKeyHistory s) = [])"

text \<open>
  The script-pubkeys of the watch-list, each once and in order, up to and including the
  first one that is not idle.
\<close>

definition fetched_until_unseen ::
  "(string \<Rightarrow> THistoryItem list) \<Rightarrow> TWatchTx list \<Rightarrow> string list" where
  "fetched_until_unseen getScriptPubKeyHistory watchTxs =
     takeWhile (idle_script getScriptPubKeyHistory watchTxs) (script_pubkeys_in_order watchTxs) @
     take 1 (dropWhile (idle_script getScriptPubKeyHistory watchTxs)
               (script_pubkeys_in_order watchTxs))"

section \<open>Concrete inputs\<close>

definition invoice_abc :: TInvoice where
  "invoice_abc =
     \<lparr> payment_hash = ''abc'', payee_pub_key = ''node123'', timestamp = 4000,
       expiry_time = 3600, to_str = ''lntb1abc'', description = None,
       amount_satoshis = Some 1500 \<rparr>"

definition invoice_old :: TInvoice where
  "invoice_old =
     \<lparr> payment_hash = ''old'', payee_pub_key = ''node123'', timestamp = 1000,
       expiry_time = 3600, to_str = ''lntb1old'', description = None,
       amount_satoshis = None \<rparr>"

definition store_two_invoices :: LightningNodeModelType where
  "store_two_invoices =
     lightningModel\<lparr>nodeId := Some ''node123'', invoices := [invoice_old, invoice_abc]\<rparr>"

definition payment_abc :: TLightningPayment where
  "payment_abc = \<lparr> invoice = invoice_abc, payment_type = None, metadata = Map.empty \<rparr>"

definition payment_abc_sent :: TLightningPayment where
  "payment_abc_sent =
     \<lparr> invoice = invoice_abc, payment_type = Some sent, metadata = [''note'' \<mapsto> ''rent''] \<rparr>"

definition payment_old_received :: TLightningPayment where
  "payment_old_received =
     \<lparr> invoice = invoice_old, payment_type = None, metadata = Map.empty \<rparr>"

definition ident_A :: TIdentifier where
  "ident_A = \<lparr> identifier_id = ''a1'', label = ''home'', address = ''alice@example.org'' \<rparr>"

definition ident_B :: TIdentifier where
  "ident_B = \<lparr> identifier_id = ''b2'', label = ''work'', address = ''lnurl1alice'' \<rparr>"

definition contact_alice :: TContact where
  "contact_alice =
     \<lparr> contact_id = ''c1'', contact_alias = Some ''Alice'', date_added = Some 1700000000000,
       identifiers = Some [ident_A], items = None \<rparr>"

definition contact_bob :: TContact where
  "contact_bob =
     \<lparr> contact_id = ''c2'', contact_alias = Some ''Bob'', date_added = Some 1700000000001,
       identifiers = Some [ident_A], items = None \<rparr>"

definition contact_noid :: TContact where
  "contact_noid =
     \<lparr> contact_id = [], contact_alias = Some ''Nameless'', date_added = None,
       identifiers = Some [ident_A], items = None \<rparr>"

text \<open>A contact as the new-contact sheet creates it, with no identifiers list.\<close>

definition contact_carol :: TContact where
  "contact_carol =
     \<lparr> contact_id = ''c3'', contact_alias = Some ''Carol'', date_added = Some 1700000000002,
       identifiers = None, items = None \<rparr>"

text \<open>The payload that adds the address \<open>ident_B\<close> to the contact of a given id.\<close>

definition add_address_B :: "string \<Rightarrow> TContact" where
  "add_address_B cid =
     \<lparr> contact_id = cid, contact_alias = None, date_added = None,
       identifiers = Some [ident_B], items = None \<rparr>"

definition store_contacts :: LightningNodeModelType where
  "store_contacts = lightningModel\<lparr>contacts := [contact_alice, contact_bob]\<rparr>"

definition store_alice_B :: LightningNodeModelType where
  "store_alice_B =
     updateContact (addContact lightningModel contact_alice) ''c1'' (add_address_B ''c1'')"

definition store_alice_BB :: LightningNodeModelType where
  "store_alice_BB = updateContact store_alice_B ''c1'' (add_address_B ''c1'')"

definition channel_one :: TChannel where
  "channel_one = \<lparr> channel_id = ''ch1'', is_usable = True, balance_sat = 20000 \<rparr>"

definition channels_payload_one :: TChannelsPayload where
  "channels_payload_one =
     \<lparr> payload_channels = Some [''ch1'' \<mapsto> channel_one],
       payload_openChannelIds = Some [''ch1''] \<rparr>"

definition channels_payload_twice :: TChannelsPayload where
  "channels_payload_twice =
     \<lparr> payload_channels = None, payload_openChannelIds = Some [''ch1'', ''ch1''] \<rparr>"

definition idle_world :: world where
  "idle_world = \<lparr> store = lightningModel, LDKIsStayingSynced = False, calls = [] \<rparr>"

definition store_abc_world :: world where
  "store_abc_world = \<lparr> store = store_two_invoices, LDKIsStayingSynced = True, calls = [] \<rparr>"

text \<open>The third call of \<^verbatim>\<open>refreshLdk\<close> fails, the others succeed.\<close>

definition third_sync_fails :: "nat \<Rightarrow> string Result" where
  "third_sync_fails k = (if k = 2 then Err ''sync failed'' else Ok [])"

definition no_account_env :: TSetupEnv where
  "no_account_env =
     \<lparr> env_resetLdk = Returns (Ok []),
       env_getLdkAccount = Returns (Err ''Unable to retrieve account''),
       env_setLdkStoragePath = Returns (Ok []),
       env_lmStart = (\<lambda>account. Returns (Ok [])),
       env_nodeId = Returns (Ok ''node123''),
       env_version = Ok (''0.0.114'', ''0.0.114.1'') \<rparr>"

text \<open>
  The account material loads, and \<^verbatim>\<open>setLdkStoragePath\<close> fails with the message the
  loader gives in \<open>no_account_env\<close>.
\<close>

definition storage_fails_env :: TSetupEnv where
  "storage_fails_env =
     \<lparr> env_resetLdk = Returns (Ok []),
       env_getLdkAccount = Returns (Ok ''account''),
       env_setLdkStoragePath = Returns (Err ''Unable to retrieve account''),
       env_lmStart = (\<lambda>account. Returns (Ok [])),
       env_nodeId = Returns (Ok ''node123''),
       env_version = Ok (''0.0.114'', ''0.0.114.1'') \<rparr>"

text \<open>
  A watch-list of two scripts; in \<open>history_two\<close> only the second script has a
  transaction the watch-list does not know, in \<open>history_idle\<close> none has.
\<close>

definition watch_two :: "TWatchTx list" where
  "watch_two =
     [\<lparr> watch_txid = ''t1'', watch_script_pubkey = ''s1'' \<rparr>,
      \<lparr> watch_txid = ''t2'', watch_script_pubkey = ''s1'' \<rparr>,
      \<lparr> watch_txid = ''t3'', watch_script_pubkey = ''s2'' \<rparr>]"

definition history_two :: "string \<Rightarrow> THistoryItem list" where
  "history_two s =
     (if s = ''s1'' then [\<lparr> history_txid = ''t1'', history_height = 100 \<rparr>]
      else if s = ''s2''
      then [\<lparr> history_txid = ''t3'', history_height = 101 \<rparr>,
            \<lparr> history_txid = ''t9'', history_height = 102 \<rparr>]
      else [])"

definition history_idle :: "string \<Rightarrow> THistoryItem list" where
  "history_idle s =
     (if s = ''s1'' then [\<lparr> history_txid = ''t1'', history_height = 100 \<rparr>]
      else if s = ''s2'' then [\<lparr> history_txid = ''t3'', history_height = 101 \<rparr>]
      else [])"

text \<open>A third script after them, whose history has an unseen transaction too.\<close>

definition watch_three :: "TWatchTx list" where
  "watch_three = watch_two @ [\<lparr> watch_txid = ''t4'', watch_script_pubkey = ''s3'' \<rparr>]"

definition history_three :: "string \<Rightarrow> THistoryItem list" where
  "history_three s =
     (if s = ''s3'' then [\<lparr> history_txid = ''t8'', history_height = 103 \<rparr>]
      else history_two s)"

definition transaction_data :: "string \<Rightarrow> TTransactionData" where
  "transaction_data txId =
     \<lparr> tx_header = ''header-of-'' @ txId, tx_height = 102, tx_transaction = ''raw-'' @ txId \<rparr>"

section \<open>The synchronisation loop\<close>

lemma keepLdkSynced_body_keeps_running:
  "loop_error (keepLdkSynced_body refreshLdk frequency l) = loop_error l \<and>
   loop_attempts (keepLdkSynced_body refreshLdk frequency l) = Suc (loop_attempts l) \<and>
   LDKIsStayingSynced (loop_world (keepLdkSynced_body refreshLdk frequency l)) =
     LDKIsStayingSynced (loop_world l)"
  by (cases "refreshLdk (loop_attempts l)") (simp_all add: keepLdkSynced_body_def call_def)

lemma keepLdkSynced_loop_None:
  "loop_error l = [] \<Longrightarrow> keepLdkSynced_loop fuel refreshLdk frequency l = None"
  by (induction fuel arbitrary: l) (simp_all add: keepLdkSynced_body_keeps_running)

lemma keepLdkSynced_body_funpow:
  "loop_error ((keepLdkSynced_body refreshLdk frequency ^^ k) l) = loop_error l \<and>
   loop_attempts ((keepLdkSynced_body refreshLdk frequency ^^ k) l) = loop_attempts l + k \<and>
   LDKIsStayingSynced (loop_world ((keepLdkSynced_body refreshLdk frequency ^^ k) l)) =
     LDKIsStayingSynced (loop_world l)"
  by (induction k) (simp_all add: keepLdkSynced_body_keeps_running)

text \<open>
  C1. The run of \<^verbatim>\<open>keepLdkSynced\<close> with frequency 1000, started with the guard flag
  unset, in which the third sync attempt is the first to fail. The run does not return,
  whatever the fuel: a failure result is an object, so \<^verbatim>\<open>!syncRes\<close> is false and the
  branch that clears the flag and leaves the loop is never taken. After four runs of the
  loop body the variable \<^verbatim>\<open>error\<close> is still empty, four sync attempts have been made
  and the guard flag is still set, so that a further call of \<^verbatim>\<open>keepLdkSynced\<close> returns
  at once, having done nothing.
\<close>

theorem keepLdkSynced_third_failure:
  "keepLdkSynced fuel third_sync_fails 1000 idle_world = None \<and>
   loop_error ((keepLdkSynced_body third_sync_fails 1000 ^^ 4) (keepLdkSynced_start idle_world)) = [] \<and>
   loop_attempts ((keepLdkSynced_body third_sync_fails 1000 ^^ 4) (keepLdkSynced_start idle_world)) = 4 \<and>
   LDKIsStayingSynced
     (loop_world ((keepLdkSynced_body third_sync_fails 1000 ^^ 4) (keepLdkSynced_start idle_world))) \<and>
   keepLdkSynced fuel third_sync_fails 1000
     (loop_world ((keepLdkSynced_body third_sync_fails 1000 ^^ 4) (keepLdkSynced_start idle_world))) =
   Some (loop_world ((keepLdkSynced_body third_sync_fails 1000 ^^ 4) (keepLdkSynced_start idle_world)))"
proof -
  have start: "loop_error (keepLdkSynced_start idle_world) = []"
    "loop_attempts (keepLdkSynced_start idle_world) = 0"
    "LDKIsStayingSynced (loop_world (keepLdkSynced_start idle_world))"
    by (simp_all add: keepLdkSynced_start_def)
  have idle: "\<not> LDKIsStayingSynced idle_world"
    by (simp add: idle_world_def)
  have "keepLdkSynced fuel third_sync_fails 1000 idle_world = None"
    using idle by (simp add: keepLdkSynced_def keepLdkSynced_loop_None start(1))
  moreover note keepLdkSynced_body_funpow
    [where refreshLdk = third_sync_fails and frequency = 1000 and k = 4
       and l = "keepLdkSynced_start idle_world"]
  ultimately show ?thesis
    by (simp add: start keepLdkSynced_def)
qed

section \<open>Watched outputs\<close>

lemma set_first_occurrences: "set (first_occurrences xs) = set xs"
  by (induction xs) auto

lemma distinct_first_occurrences: "distinct (first_occurrences xs)"
  by (induction xs) (auto simp: set_first_occurrences)

lemma scan_history_filter:
  "scan_history ids ds =
     (case filter (\<lambda>d. history_txid d \<notin> set ids) ds of [] \<Rightarrow> None | d # _ \<Rightarrow> Some d)"
  by (induction ds) auto

lemma checkWatchTxs_loop_exact:
  assumes idle: "\<And>s. idle s \<longleftrightarrow> filter (\<lambda>d. history_txid d \<notin> set ids) (hist s) = []"
    and report: "\<And>s. report s =
        [GetScriptPubKeyHistory s,
         GetTransactionData
           (history_txid (hd (filter (\<lambda>d. history_txid d \<notin> set ids) (hist s)))),
         SetTxConfirmed
           (tx_header (txd (history_txid
              (hd (filter (\<lambda>d. history_txid d \<notin> set ids) (hist s))))))
           (tx_height (txd (history_txid
              (hd (filter (\<lambda>d. history_txid d \<notin> set ids) (hist s))))))
           [(tx_transaction (txd (history_txid
              (hd (filter (\<lambda>d. history_txid d \<notin> set ids) (hist s))))), 0)]]"
  shows "checkWatchTxs_loop hist txd ids checked ws log =
     (case dropWhile idle
             (filter (\<lambda>s. s \<notin> set checked)
                (first_occurrences (map watch_script_pubkey ws))) of
        [] \<Rightarrow>
          (False,
           log @ map GetScriptPubKeyHistory
                   (filter (\<lambda>s. s \<notin> set checked)
                      (first_occurrences (map watch_script_pubkey ws))))
      | s # _ \<Rightarrow>
          (True,
           log @ map GetScriptPubKeyHistory
                   (takeWhile idle
                      (filter (\<lambda>s. s \<notin> set checked)
                         (first_occurrences (map watch_script_pubkey ws)))) @ report s))"
proof (induction ws arbitrary: checked log)
  case Nil
  then show ?case by simp
next
  case (Cons w ws)
  let ?s = "watch_script_pubkey w"
  let ?rest = "first_occurrences (map watch_script_pubkey ws)"
  show ?case
  proof (cases "?s \<in> set checked")
    case True
    then have "filter (\<lambda>s. s \<notin> set checked) (filter (\<lambda>y. y \<noteq> ?s) ?rest) =
               filter (\<lambda>s. s \<notin> set checked) ?rest"
      by (auto intro: filter_cong)
    then have ss: "filter (\<lambda>s. s \<notin> set checked)
                     (first_occurrences (map watch_script_pubkey (w # ws))) =
                   filter (\<lambda>s. s \<notin> set checked) ?rest"
      using True by simp
    have step: "checkWatchTxs_loop hist txd ids checked (w # ws) log =
                checkWatchTxs_loop hist txd ids checked ws log"
      using True by simp
    show ?thesis
      unfolding ss step by (rule Cons.IH)
  next
    case False
    define ss' where "ss' = filter (\<lambda>s. s \<notin> set (checked @ [?s])) ?rest"
    have "filter (\<lambda>s. s \<notin> set checked) (filter (\<lambda>y. y \<noteq> ?s) ?rest) = ss'"
      unfolding ss'_def by (auto intro: filter_cong)
    then have ss: "filter (\<lambda>s. s \<notin> set checked)
                     (first_occurrences (map watch_script_pubkey (w # ws))) = ?s # ss'"
      using False by simp
    have ih: "checkWatchTxs_loop hist txd ids (checked @ [?s]) ws
                (log @ [GetScriptPubKeyHistory ?s]) =
        (case dropWhile idle ss' of
           [] \<Rightarrow> (False, (log @ [GetScriptPubKeyHistory ?s]) @ map GetScriptPubKeyHistory ss')
         | s # _ \<Rightarrow>
             (True, (log @ [GetScriptPubKeyHistory ?s]) @
                      map GetScriptPubKeyHistory (takeWhile idle ss') @ report s))"
      unfolding ss'_def by (rule Cons.IH)
    show ?thesis
    proof (cases "idle ?s")
      case True
      then have "scan_history ids (hist ?s) = None"
        by (simp add: idle scan_history_filter)
      then have step: "checkWatchTxs_loop hist txd ids checked (w # ws) log =
                 checkWatchTxs_loop hist txd ids (checked @ [?s]) ws
                   (log @ [GetScriptPubKeyHistory ?s])"
        using False by simp
      show ?thesis
        unfolding ss step ih using True
        by (cases "dropWhile idle ss'") (simp_all del: dropWhile_eq_Nil_conv)
    next
      case notidle: False
      then obtain d ds where d: "filter (\<lambda>d. history_txid d \<notin> set ids) (hist ?s) = d # ds"
        by (cases "filter (\<lambda>d. history_txid d \<notin> set ids) (hist ?s)") (simp_all add: idle)
      then have "scan_history ids (hist ?s) = Some d"
        by (simp add: scan_history_filter)
      then have step: "checkWatchTxs_loop hist txd ids checked (w # ws) log =
          (True, log @ [GetScriptPubKeyHistory ?s] @
             [GetTransactionData (history_txid d),
              SetTxConfirmed (tx_header (txd (history_txid d))) (tx_height (txd (history_txid d)))
                [(tx_transaction (txd (history_txid d)), 0)]])"
        using False by (simp add: Let_def)
      show ?thesis
        unfolding ss step using notidle d
        by (simp add: report)
    qed
  qed
qed

lemma hd_dropWhile_filter_neq:
  "P x \<Longrightarrow> hd (dropWhile P (filter (\<lambda>y. y \<noteq> x) ys)) = hd (dropWhile P ys)"
  by (induction ys) auto

lemma hd_dropWhile_first_occurrences:
  "hd (dropWhile P (first_occurrences xs)) = hd (dropWhile P xs)"
  by (induction xs) (auto simp: hd_dropWhile_filter_neq)

lemma concat_map_empty_dropWhile:
  "concat (map f xs) = [] \<longleftrightarrow> dropWhile (\<lambda>x. f x = []) xs = []"
  by (induction xs) auto

lemma hd_concat_map_dropWhile:
  "hd (concat (map f xs)) = hd (concat (map f (dropWhile (\<lambda>x. f x = []) xs)))"
  by (induction xs) auto

lemma unseen_entries_concat:
  "unseen_entries hist watchTxs =
     concat (map (\<lambda>s. filter (\<lambda>d. history_txid d \<notin> set (map watch_txid watchTxs)) (hist s))
               (map watch_script_pubkey watchTxs))"
  by (simp add: unseen_entries_def filter_concat comp_def)

lemma unseen_entries_empty:
  "unseen_entries hist watchTxs = [] \<longleftrightarrow>
   dropWhile (idle_script hist watchTxs) (script_pubkeys_in_order watchTxs) = []"
  by (auto simp: unseen_entries_concat idle_script_def script_pubkeys_in_order_def
      set_first_occurrences)

lemma hd_unseen_entries:
  assumes "dropWhile (idle_script hist watchTxs) (script_pubkeys_in_order watchTxs) = s # rest"
  shows "hd (unseen_entries hist watchTxs) =
         hd (filter (\<lambda>d. history_txid d \<notin> set (map watch_txid watchTxs)) (hist s))"
proof -
  let ?f = "\<lambda>s. filter (\<lambda>d. history_txid d \<notin> set (map watch_txid watchTxs)) (hist s)"
  let ?xs = "map watch_script_pubkey watchTxs"
  have idle: "idle_script hist watchTxs = (\<lambda>x. ?f x = [])"
    by (rule ext) (simp add: idle_script_def)
  have s: "s = hd (dropWhile (\<lambda>x. ?f x = []) ?xs)"
    using assms hd_dropWhile_first_occurrences [of "\<lambda>x. ?f x = []" ?xs]
    by (simp add: idle script_pubkeys_in_order_def)
  have "dropWhile (\<lambda>x. ?f x = []) (first_occurrences ?xs) \<noteq> []"
    using assms by (simp add: idle script_pubkeys_in_order_def)
  then have "dropWhile (\<lambda>x. ?f x = []) ?xs \<noteq> []"
    by (simp add: set_first_occurrences)
  then obtain rest' where d: "dropWhile (\<lambda>x. ?f x = []) ?xs = s # rest'"
    using s by (cases "dropWhile (\<lambda>x. ?f x = []) ?xs") auto
  then have ne: "?f s \<noteq> []"
    using hd_dropWhile [of "\<lambda>x. ?f x = []" ?xs] by simp
  have "hd (unseen_entries hist watchTxs) = hd (concat (map ?f (s # rest')))"
    unfolding unseen_entries_concat
    using hd_concat_map_dropWhile [of ?f ?xs] by (simp only: d)
  also have "\<dots> = hd (?f s)"
    using ne by simp
  finally show ?thesis .
qed

lemma no_confirmation_among_fetches:
  "filter is_SetTxConfirmed (map GetScriptPubKeyHistory ss) = []"
  by (induction ss) auto

lemma fetched_scripts_of_fetches:
  "fetched_scripts (map GetScriptPubKeyHistory ss @ es) = ss @ fetched_scripts es"
  by (induction ss) (auto simp: fetched_scripts_def)

lemma distinct_fetched_until_unseen: "distinct (fetched_until_unseen hist watchTxs)"
proof -
  have "takeWhile P xs @ take 1 (dropWhile P xs) = take (Suc (length (takeWhile P xs))) xs"
    for P :: "string \<Rightarrow> bool" and xs
    by (induction xs) auto
  then show ?thesis
    by (simp add: fetched_until_unseen_def script_pubkeys_in_order_def
        distinct_first_occurrences del: take_Suc_Cons)
qed

lemma checkWatchTxs_exact:
  "checkWatchTxs hist txd watchTxs =
     (case unseen_entries hist watchTxs of
        [] \<Rightarrow> (False, map GetScriptPubKeyHistory (script_pubkeys_in_order watchTxs))
      | d # _ \<Rightarrow>
          (True,
           map GetScriptPubKeyHistory (fetched_until_unseen hist watchTxs) @
             [GetTransactionData (history_txid d),
              SetTxConfirmed (tx_header (txd (history_txid d))) (tx_height (txd (history_txid d)))
                [(tx_transaction (txd (history_txid d)), 0)]]))"
proof -
  let ?ids = "map watch_txid watchTxs"
  let ?report = "\<lambda>s.
        [GetScriptPubKeyHistory s,
         GetTransactionData
           (history_txid (hd (filter (\<lambda>d. history_txid d \<notin> set ?ids) (hist s)))),
         SetTxConfirmed
           (tx_header (txd (history_txid
              (hd (filter (\<lambda>d. history_txid d \<notin> set ?ids) (hist s))))))
           (tx_height (txd (history_txid
              (hd (filter (\<lambda>d. history_txid d \<notin> set ?ids) (hist s))))))
           [(tx_transaction (txd (history_txid
              (hd (filter (\<lambda>d. history_txid d \<notin> set ?ids) (hist s))))), 0)]]"
  have loop: "checkWatchTxs hist txd watchTxs =
     (case dropWhile (idle_script hist watchTxs) (script_pubkeys_in_order watchTxs) of
        [] \<Rightarrow> (False, map GetScriptPubKeyHistory (script_pubkeys_in_order watchTxs))
      | s # _ \<Rightarrow>
          (True,
           map GetScriptPubKeyHistory
             (takeWhile (idle_script hist watchTxs) (script_pubkeys_in_order watchTxs)) @
           ?report s))"
  proof -
    have "checkWatchTxs_loop hist txd ?ids [] watchTxs [] =
      (case dropWhile (idle_script hist watchTxs)
             (filter (\<lambda>s. s \<notin> set [])
                (first_occurrences (map watch_script_pubkey watchTxs))) of
        [] \<Rightarrow>
          (False,
           [] @ map GetScriptPubKeyHistory
                   (filter (\<lambda>s. s \<notin> set [])
                      (first_occurrences (map watch_script_pubkey watchTxs))))
      | s # _ \<Rightarrow>
          (True,
           [] @ map GetScriptPubKeyHistory
                   (takeWhile (idle_script hist watchTxs)
                      (filter (\<lambda>s. s \<notin> set [])
                         (first_occurrences (map watch_script_pubkey watchTxs)))) @ ?report s))"
      by (rule checkWatchTxs_loop_exact) (simp_all add: idle_script_def)
    then show ?thesis
      unfolding checkWatchTxs_def Let_def script_pubkeys_in_order_def
      by (simp cong: list.case_cong)
  qed
  show ?thesis
  proof (cases "dropWhile (idle_script hist watchTxs) (script_pubkeys_in_order watchTxs)")
    case Nil
    then have "unseen_entries hist watchTxs = []"
      by (simp only: unseen_entries_empty)
    then show ?thesis unfolding loop Nil by simp
  next
    case (Cons s rest)
    then have "unseen_entries hist watchTxs \<noteq> []"
      by (simp only: unseen_entries_empty) simp
    then obtain d ds where u: "unseen_entries hist watchTxs = d # ds"
      by (cases "unseen_entries hist watchTxs") auto
    have "d = hd (filter (\<lambda>d. history_txid d \<notin> set ?ids) (hist s))"
      using hd_unseen_entries [OF Cons] u by simp
    then show ?thesis
      unfolding loop fetched_until_unseen_def Cons u by simp
  qed
qed

text \<open>
  C2. There is an unseen entry exactly when some script of the watch-list has, in its
  history, a transaction id that is not among the transaction ids of the watch-list. When
  there is one, \<^verbatim>\<open>checkWatchTxs\<close> returns true; it has fetched the histories of the
  scripts of the watch-list, each once and in order, up to and including the first script
  that has an unseen entry, and of no later script; it has then fetched the data of the
  first unseen entry and made exactly one call of \<^verbatim>\<open>setTxConfirmed\<close>, with the header,
  the height and the raw transaction of that data and the position 0, as the last thing
  it does. When there is none, it returns false after fetching the history of every
  script once, and makes no call of \<^verbatim>\<open>setTxConfirmed\<close>.
\<close>

theorem checkWatchTxs_first_unseen:
  "(unseen_entries hist watchTxs \<noteq> [] \<longleftrightarrow>
      (\<exists>watchTx \<in> set watchTxs. \<exists>d \<in> set (hist (watch_script_pubkey watchTx)).
          history_txid d \<notin> set (map watch_txid watchTxs))) \<and>
   (unseen_entries hist watchTxs \<noteq> [] \<longrightarrow>
      (let t = history_txid (hd (unseen_entries hist watchTxs));
           report = SetTxConfirmed (tx_header (txd t)) (tx_height (txd t))
                      [(tx_transaction (txd t), 0)]
       in checkWatchTxs hist txd watchTxs =
            (True,
             map GetScriptPubKeyHistory (fetched_until_unseen hist watchTxs) @
               [GetTransactionData t, report]) \<and>
          setTxConfirmed_calls (snd (checkWatchTxs hist txd watchTxs)) = [report] \<and>
          last (snd (checkWatchTxs hist txd watchTxs)) = report \<and>
          fetched_scripts (snd (checkWatchTxs hist txd watchTxs)) =
            fetched_until_unseen hist watchTxs)) \<and>
   (unseen_entries hist watchTxs = [] \<longrightarrow>
      checkWatchTxs hist txd watchTxs =
        (False, map GetScriptPubKeyHistory (script_pubkeys_in_order watchTxs)) \<and>
      setTxConfirmed_calls (snd (checkWatchTxs hist txd watchTxs)) = []) \<and>
   distinct (fetched_scripts (snd (checkWatchTxs hist txd watchTxs)))"
proof (intro conjI)
  show "unseen_entries hist watchTxs \<noteq> [] \<longleftrightarrow>
      (\<exists>watchTx \<in> set watchTxs. \<exists>d \<in> set (hist (watch_script_pubkey watchTx)).
          history_txid d \<notin> set (map watch_txid watchTxs))"
    by (auto simp: unseen_entries_def filter_empty_conv)
  show "unseen_entries hist watchTxs \<noteq> [] \<longrightarrow>
      (let t = history_txid (hd (unseen_entries hist watchTxs));
           report = SetTxConfirmed (tx_header (txd t)) (tx_height (txd t))
                      [(tx_transaction (txd t), 0)]
       in checkWatchTxs hist txd watchTxs =
            (True,
             map GetScriptPubKeyHistory (fetched_until_unseen hist watchTxs) @
               [GetTransactionData t, report]) \<and>
          setTxConfirmed_calls (snd (checkWatchTxs hist txd watchTxs)) = [report] \<and>
          last (snd (checkWatchTxs hist txd watchTxs)) = report \<and>
          fetched_scripts (snd (checkWatchTxs hist txd watchTxs)) =
            fetched_until_unseen hist watchTxs)"
  proof
    assume "unseen_entries hist watchTxs \<noteq> []"
    then obtain d ds where u: "unseen_entries hist watchTxs = d # ds"
      by (cases "unseen_entries hist watchTxs") auto
    show "let t = history_txid (hd (unseen_entries hist watchTxs));
           report = SetTxConfirmed (tx_header (txd t)) (tx_height (txd t))
                      [(tx_transaction (txd t), 0)]
       in checkWatchTxs hist txd watchTxs =
            (True,
             map GetScriptPubKeyHistory (fetched_until_unseen hist watchTxs) @
               [GetTransactionData t, report]) \<and>
          setTxConfirmed_calls (snd (checkWatchTxs hist txd watchTxs)) = [report] \<and>
          last (snd (checkWatchTxs hist txd watchTxs)) = report \<and>
          fetched_scripts (snd (checkWatchTxs hist txd watchTxs)) =
            fetched_until_unseen hist watchTxs"
      unfolding checkWatchTxs_exact u Let_def
      by (simp add: setTxConfirmed_calls_def no_confirmation_among_fetches
          fetched_scripts_of_fetches)
         (simp add: fetched_scripts_def)
  qed
  show "unseen_entries hist watchTxs = [] \<longrightarrow>
      checkWatchTxs hist txd watchTxs =
        (False, map GetScriptPubKeyHistory (script_pubkeys_in_order watchTxs)) \<and>
      setTxConfirmed_calls (snd (checkWatchTxs hist txd watchTxs)) = []"
    by (simp add: checkWatchTxs_exact setTxConfirmed_calls_def no_confirmation_among_fetches)
  show "distinct (fetched_scripts (snd (checkWatchTxs hist txd watchTxs)))"
  proof (cases "unseen_entries hist watchTxs")
    case Nil
    then show ?thesis
      using fetched_scripts_of_fetches [of "script_pubkeys_in_order watchTxs" "[]"]
      by (simp add: checkWatchTxs_exact script_pubkeys_in_order_def distinct_first_occurrences
          fetched_scripts_def)
  next
    case (Cons d ds)
    then show ?thesis
      using distinct_fetched_until_unseen [of hist watchTxs]
      by (simp add: checkWatchTxs_exact fetched_scripts_of_fetches)
         (simp add: fetched_scripts_def)
  qed
qed

text \<open>
  A watch-list of two scripts of which only the second has an unseen transaction: both
  histories are fetched, once each, and the transaction \<open>t9\<close> is confirmed. With a third
  script after them the calls are the same: its history is not fetched. With no unseen
  transaction nothing is confirmed.
\<close>

theorem checkWatchTxs_first_unseen_witness:
  "unseen_entries history_two watch_two \<noteq> [] \<and>
   checkWatchTxs history_two transaction_data watch_two =
     (True, [GetScriptPubKeyHistory ''s1'', GetScriptPubKeyHistory ''s2'',
             GetTransactionData ''t9'', SetTxConfirmed ''header-of-t9'' 102 [(''raw-t9'', 0)]]) \<and>
   unseen_entries history_three watch_three \<noteq> [] \<and>
   checkWatchTxs history_three transaction_data watch_three =
     (True, [GetScriptPubKeyHistory ''s1'', GetScriptPubKeyHistory ''s2'',
             GetTransactionData ''t9'', SetTxConfirmed ''header-of-t9'' 102 [(''raw-t9'', 0)]]) \<and>
   unseen_entries history_idle watch_two = [] \<and>
   checkWatchTxs history_idle transaction_data watch_two =
     (False, [GetScriptPubKeyHistory ''s1'', GetScriptPubKeyHistory ''s2''])"
  using checkWatchTxs_first_unseen [of history_two watch_two transaction_data]
    checkWatchTxs_first_unseen [of history_three watch_three transaction_data]
    checkWatchTxs_first_unseen [of history_idle watch_two transaction_data]
  by (simp add: checkWatchTxs_def unseen_entries_def watch_two_def watch_three_def history_two_def
      history_three_def history_idle_def transaction_data_def)

section \<open>Payment-claimed events\<close>

text \<open>
  C3. For a payment-claimed event that carries the payment hash \<open>h\<close>: if the store has
  an invoice of payment hash \<open>h\<close>, the handler takes the first such invoice, the store
  gains a payment keyed \<open>h\<close> for it, of direction received when the invoice's payee is
  the node id and sent otherwise, and a sync is then triggered; if the store has no such
  invoice the world is left as it was, and no sync is triggered.
\<close>

theorem handlePaymentSubscription_claimed:
  "((\<exists>i \<in> set (invoices (store w)). payment_hash i = h) \<longrightarrow>
      (\<exists>found. getPendingInvoice (store w) h = Ok found \<and> payment_hash found = h \<and>
         found \<in> set (invoices (store w)) \<and>
         map_of (payments (store (handlePaymentSubscription h w))) h =
           Some \<lparr> invoice = found,
                  payment_type =
                    Some (if Some (payee_pub_key found) = nodeId (store w)
                          then received else sent),
                  metadata = Map.empty \<rparr> \<and>
         store (handlePaymentSubscription h w) =
           addPayment (store w)
             \<lparr> invoice = found, payment_type = None, metadata = Map.empty \<rparr> \<and>
         calls (handlePaymentSubscription h w) = calls w @ [RefreshLdk])) \<and>
   (\<not> (\<exists>i \<in> set (invoices (store w)). payment_hash i = h) \<longrightarrow>
      handlePaymentSubscription h w = w)"
proof (cases "filter (\<lambda>i. payment_hash i = h) (invoices (store w))")
  case Nil
  then have "\<not> (\<exists>i \<in> set (invoices (store w)). payment_hash i = h)"
    by (simp add: filter_empty_conv)
  then show ?thesis
    using Nil by (simp add: handlePaymentSubscription_def getPendingInvoice_def)
next
  case (Cons found rest)
  then have "found \<in> set (filter (\<lambda>i. payment_hash i = h) (invoices (store w)))"
    by simp
  then have mem: "found \<in> set (invoices (store w))" "payment_hash found = h"
    by simp_all
  have ok: "getPendingInvoice (store w) h = Ok found"
    using Cons by (simp add: getPendingInvoice_def)
  show ?thesis
    using mem ok
    by (auto simp: handlePaymentSubscription_def helpers_addPayment_def call_def addPayment_def
        update_conv')
qed

text \<open>
  The invoice \<open>abc\<close> of payee \<open>node123\<close> is stored and the node id is \<open>node123\<close>:
  the event for \<open>abc\<close> adds a received payment and triggers a sync; the event for
  \<open>xyz\<close> changes nothing.
\<close>

theorem handlePaymentSubscription_claimed_witness:
  "invoice_abc \<in> set (invoices (store store_abc_world)) \<and> payment_hash invoice_abc = ''abc'' \<and>
   map_of (payments (store (handlePaymentSubscription ''abc'' store_abc_world))) ''abc'' =
     Some \<lparr> invoice = invoice_abc, payment_type = Some received, metadata = Map.empty \<rparr> \<and>
   calls (handlePaymentSubscription ''abc'' store_abc_world) = [RefreshLdk] \<and>
   handlePaymentSubscription ''xyz'' store_abc_world = store_abc_world"
  using handlePaymentSubscription_claimed [of store_abc_world "''abc''"]
    handlePaymentSubscription_claimed [of store_abc_world "''xyz''"]
  by (simp add: handlePaymentSubscription_def getPendingInvoice_def helpers_addPayment_def
      call_def addPayment_def store_abc_world_def store_two_invoices_def invoice_abc_def
      invoice_old_def lightningModel_def)

section \<open>Setup without account material\<close>

text \<open>
  C4. When the reset has returned and loading the account material fails (the loader
  returns a failure, or throws), \<^verbatim>\<open>setupLdk\<close> returns a failure whose only content is
  the loader's error message; the only calls it has made are the reset and the load, so
  the engine is not started; and the store, with its node id, is as it was before the
  call.
\<close>

theorem setupLdk_account_failure:
  "env_resetLdk env = Returns r \<longrightarrow>
   env_getLdkAccount env = Returns (Err m) \<or> env_getLdkAccount env = Throws m \<longrightarrow>
   fst (setupLdk env shouldRefreshLdk w) = Err m \<and>
   calls (snd (setupLdk env shouldRefreshLdk w)) = calls w @ [LdkReset, GetLdkAccount] \<and>
   filter is_LmStart (calls (snd (setupLdk env shouldRefreshLdk w))) =
     filter is_LmStart (calls w) \<and>
   store (snd (setupLdk env shouldRefreshLdk w)) = store w \<and>
   nodeId (store (snd (setupLdk env shouldRefreshLdk w))) = nodeId (store w)"
  by (auto simp: setupLdk_def call_def)

text \<open>
  The failure carries no tag: when the account material loads and a later step,
  \<^verbatim>\<open>setLdkStoragePath\<close>, fails with the same message, \<^verbatim>\<open>setupLdk\<close> returns the very
  same result as when the load fails.
\<close>

theorem setupLdk_account_failure_counterexample:
  "env_getLdkAccount no_account_env = Returns (Err ''Unable to retrieve account'') \<and>
   env_getLdkAccount storage_fails_env = Returns (Ok ''account'') \<and>
   fst (setupLdk no_account_env True idle_world) = Err ''Unable to retrieve account'' \<and>
   fst (setupLdk storage_fails_env True idle_world) =
     fst (setupLdk no_account_env True idle_world)"
  by (simp add: setupLdk_def call_def no_account_env_def storage_fails_env_def)

text \<open>
  Secure storage has no account material and the store is the initial one: the failure
  is returned after the reset and the load, and the node id stays unset.
\<close>

theorem setupLdk_account_failure_witness:
  "env_resetLdk no_account_env = Returns (Ok []) \<and>
   env_getLdkAccount no_account_env = Returns (Err ''Unable to retrieve account'') \<and>
   setupLdk no_account_env True idle_world =
     (Err ''Unable to retrieve account'', idle_world\<lparr>calls := [LdkReset, GetLdkAccount]\<rparr>) \<and>
   nodeId (store (snd (setupLdk no_account_env True idle_world))) = None"
  using setupLdk_account_failure [of no_account_env "Ok []" "''Unable to retrieve account''" True
      idle_world]
  by (simp add: setupLdk_def call_def no_account_env_def idle_world_def lightningModel_def)

section \<open>Direction of a payment\<close>

lemma update_first_exact:
  "update_first P f kvs =
     (case dropWhile (\<lambda>(k, v). \<not> P v) kvs of
        [] \<Rightarrow> kvs
      | (k, v) # rest \<Rightarrow> takeWhile (\<lambda>(k, v). \<not> P v) kvs @ (k, f v) # rest)"
proof (induction kvs)
  case Nil
  then show ?case by simp
next
  case (Cons kv kvs)
  obtain k v where kv: "kv = (k, v)" by (cases kv)
  show ?case
  proof (cases "P v")
    case True
    then show ?thesis by (simp add: kv)
  next
    case False
    then show ?thesis
      using Cons.IH
      by (cases "dropWhile (\<lambda>(k, v). \<not> P v) kvs")
         (simp_all add: kv del: dropWhile_eq_Nil_conv split: prod.splits)
  qed
qed

text \<open>
  C5. \<^verbatim>\<open>addPayment\<close> stores, under the payment hash of the payload's invoice, a
  payment of direction received exactly when the invoice's payee is the store's node id,
  and of direction sent exactly when it is not. \<^verbatim>\<open>updatePayment\<close> does not read the
  node id, so it never recomputes a direction. It changes the first stored payment whose
  invoice has the payload's payment hash, and no other: that payment takes the payload's
  invoice and metadata, keeps its direction when the payload carries none, and takes the
  payload's direction when it carries one. When no stored payment has that payment hash,
  nothing changes.
\<close>

theorem payment_direction:
  "(\<exists>p. map_of (payments (addPayment state payload)) (payment_hash (invoice payload)) = Some p \<and>
        invoice p = invoice payload \<and>
        (payment_type p = Some received \<longleftrightarrow>
           nodeId state = Some (payee_pub_key (invoice payload))) \<and>
        (payment_type p = Some sent \<longleftrightarrow>
           nodeId state \<noteq> Some (payee_pub_key (invoice payload)))) \<and>
   updatePayment (state\<lparr>nodeId := n\<rparr>) upd = (updatePayment state upd)\<lparr>nodeId := n\<rparr> \<and>
   payments (updatePayment state upd) =
     (case dropWhile (\<lambda>(k, p). payment_hash (invoice p) \<noteq> payment_hash (invoice upd))
             (payments state) of
        [] \<Rightarrow> payments state
      | (k, p) # rest \<Rightarrow>
          takeWhile (\<lambda>(k, p). payment_hash (invoice p) \<noteq> payment_hash (invoice upd))
            (payments state) @
          (k, \<lparr> invoice = invoice upd,
                payment_type =
                  (case payment_type upd of None \<Rightarrow> payment_type p | Some t \<Rightarrow> Some t),
                metadata = metadata p ++ metadata upd \<rparr>) # rest)"
proof (intro conjI)
  show "\<exists>p. map_of (payments (addPayment state payload)) (payment_hash (invoice payload)) = Some p \<and>
        invoice p = invoice payload \<and>
        (payment_type p = Some received \<longleftrightarrow>
           nodeId state = Some (payee_pub_key (invoice payload))) \<and>
        (payment_type p = Some sent \<longleftrightarrow>
           nodeId state \<noteq> Some (payee_pub_key (invoice payload)))"
    by (auto simp: addPayment_def update_conv')
  show "updatePayment (state\<lparr>nodeId := n\<rparr>) upd = (updatePayment state upd)\<lparr>nodeId := n\<rparr>"
    by (simp add: updatePayment_def)
  show "payments (updatePayment state upd) =
     (case dropWhile (\<lambda>(k, p). payment_hash (invoice p) \<noteq> payment_hash (invoice upd))
             (payments state) of
        [] \<Rightarrow> payments state
      | (k, p) # rest \<Rightarrow>
          takeWhile (\<lambda>(k, p). payment_hash (invoice p) \<noteq> payment_hash (invoice upd))
            (payments state) @
          (k, \<lparr> invoice = invoice upd,
                payment_type =
                  (case payment_type upd of None \<Rightarrow> payment_type p | Some t \<Rightarrow> Some t),
                metadata = metadata p ++ metadata upd \<rparr>) # rest)"
    by (simp add: updatePayment_def update_first_exact object_assign_def)
qed

text \<open>
  The payment \<open>abc\<close> is created as received; an update whose payload carries the
  direction sent turns it into a sent payment.
\<close>

theorem payment_direction_counterexample:
  "map_option payment_type
     (map_of (payments (addPayment store_two_invoices payment_abc)) ''abc'') =
     Some (Some received) \<and>
   map_option payment_type
     (map_of (payments (updatePayment (addPayment store_two_invoices payment_abc)
        payment_abc_sent)) ''abc'') = Some (Some sent)"
  by (simp add: addPayment_def updatePayment_def object_assign_def store_two_invoices_def
      payment_abc_def payment_abc_sent_def invoice_abc_def lightningModel_def)

text \<open>
  Two received payments, \<open>old\<close> and \<open>abc\<close>: an update for \<open>abc\<close> that carries no
  direction leaves both received; one that carries the direction sent changes \<open>abc\<close>
  only.
\<close>

theorem payment_direction_witness:
  "map (\<lambda>(k, p). (k, payment_type p))
     (payments (addPayment (addPayment store_two_invoices payment_old_received) payment_abc)) =
   [(''old'', Some received), (''abc'', Some received)] \<and>
   map (\<lambda>(k, p). (k, payment_type p))
     (payments (updatePayment
        (addPayment (addPayment store_two_invoices payment_old_received) payment_abc)
        payment_abc)) =
   [(''old'', Some received), (''abc'', Some received)] \<and>
   map (\<lambda>(k, p). (k, payment_type p))
     (payments (updatePayment
        (addPayment (addPayment store_two_invoices payment_old_received) payment_abc)
        payment_abc_sent)) =
   [(''old'', Some received), (''abc'', Some sent)]"
  using payment_direction [of store_two_invoices payment_abc None payment_abc]
    payment_direction
      [of "addPayment (addPayment store_two_invoices payment_old_received) payment_abc"
        payment_abc None payment_abc_sent]
  by (simp add: addPayment_def updatePayment_def object_assign_def store_two_invoices_def
      payment_abc_def payment_abc_sent_def payment_old_received_def invoice_abc_def
      invoice_old_def lightningModel_def)

section \<open>Expired invoices\<close>

text \<open>
  C6. After \<^verbatim>\<open>removeExpiredInvoices\<close> runs at time \<open>now\<close> (seconds since the epoch, the
  floor of the clock reading), every retained invoice satisfies
  \<open>timestamp + expiry > now\<close>, and every invoice of the store satisfying
  \<open>timestamp + expiry > now\<close> is retained.
\<close>

theorem removeExpiredInvoices_retains:
  "(\<forall>i \<in> set (invoices (removeExpiredInvoices dateNow state)).
      timestamp i + expiry_time i > dateNow div 1000 \<and>
      \<not> timestamp i + expiry_time i \<le> dateNow div 1000) \<and>
   (\<forall>i \<in> set (invoices state).
      timestamp i + expiry_time i > dateNow div 1000 \<longrightarrow>
      i \<in> set (invoices (removeExpiredInvoices dateNow state)))"
  by (simp add: removeExpiredInvoices_def Let_def)

text \<open>
  At the clock reading 5000999 ms (5000 s) the invoice of timestamp 4000 and expiry 3600
  is kept and the one of timestamp 1000 and expiry 3600 is dropped.
\<close>

theorem removeExpiredInvoices_retains_witness:
  "invoice_abc \<in> set (invoices store_two_invoices) \<and>
   timestamp invoice_abc + expiry_time invoice_abc > 5000999 div 1000 \<and>
   invoice_abc \<in> set (invoices (removeExpiredInvoices 5000999 store_two_invoices)) \<and>
   invoice_old \<notin> set (invoices (removeExpiredInvoices 5000999 store_two_invoices))"
  using removeExpiredInvoices_retains [of 5000999 store_two_invoices]
  by (simp add: removeExpiredInvoices_def store_two_invoices_def invoice_abc_def
      invoice_old_def lightningModel_def)

section \<open>Updating a contact\<close>

text \<open>
  C7. With an empty contact id \<^verbatim>\<open>updateContact\<close> changes nothing. With a non-empty
  contact id and a payload that carries the identifiers \<open>new\<close>, every contact of that id
  gets its own identifiers followed by \<open>new\<close>, takes the payload's id, and takes the
  payload's alias and date where the payload carries them; the contacts of other ids are
  unchanged, and the order of the contacts is kept.
\<close>

theorem updateContact_appends:
  "(contactId = [] \<longrightarrow> updateContact state contactId updatedContact = state) \<and>
   (contactId \<noteq> [] \<longrightarrow> identifiers updatedContact = Some new \<longrightarrow>
    list_all2
      (\<lambda>c c'. if contact_id c = contactId
               then identifiers c' = Some (identifiers_or_empty c @ new) \<and>
                    contact_id c' = contact_id updatedContact \<and>
                    contact_alias c' =
                      (case contact_alias updatedContact of
                         None \<Rightarrow> contact_alias c | Some a \<Rightarrow> Some a) \<and>
                    date_added c' =
                      (case date_added updatedContact of
                         None \<Rightarrow> date_added c | Some d \<Rightarrow> Some d)
               else c' = c)
      (contacts state) (contacts (updateContact state contactId updatedContact)))"
  by (simp add: updateContact_def merge_contact_def list_all2_map2 list_all2_same)

text \<open>
  A contact whose id is the empty string has the identifiers \<open>[ident_A]\<close>; the update
  for its id with the identifiers \<open>[ident_B]\<close> leaves it with \<open>[ident_A]\<close>.
\<close>

theorem updateContact_appends_counterexample:
  "contact_noid \<in> set (contacts (lightningModel\<lparr>contacts := [contact_noid]\<rparr>)) \<and>
   identifiers contact_noid = Some [ident_A] \<and>
   identifiers (add_address_B (contact_id contact_noid)) = Some [ident_B] \<and>
   map identifiers
     (contacts (updateContact (lightningModel\<lparr>contacts := [contact_noid]\<rparr>)
        (contact_id contact_noid) (add_address_B (contact_id contact_noid)))) =
   [Some [ident_A]]"
  by (simp add: updateContact_def contact_noid_def add_address_B_def)

text \<open>The contact \<open>c1\<close> has \<open>[ident_A]\<close> and gets \<open>[ident_A, ident_B]\<close>.\<close>

theorem updateContact_appends_witness:
  "''c1'' \<noteq> [] \<and> identifiers (add_address_B ''c1'') = Some [ident_B] \<and>
   contacts (updateContact store_contacts ''c1'' (add_address_B ''c1'')) =
     [contact_alice\<lparr>identifiers := Some [ident_A, ident_B]\<rparr>, contact_bob]"
  using updateContact_appends [of "''c1''" store_contacts "add_address_B ''c1''" "[ident_B]"]
  by (simp add: updateContact_def merge_contact_def identifiers_or_empty_def store_contacts_def
      contact_alice_def contact_bob_def add_address_B_def lightningModel_def)

section \<open>Merging channels\<close>

lemma filter_tracked_again:
  "filter (\<lambda>id. id \<notin> set (old @ filter (\<lambda>id. id \<notin> set old) new)) new = []"
  by (auto simp: filter_empty_conv)

lemma map_add_twice: "(m ++ c) ++ c = m ++ c"
  by (rule ext) (simp add: map_add_def split: option.splits)

lemma updateChannels_twice:
  "updateChannels (updateChannels state payload) payload = updateChannels state payload"
  using filter_tracked_again [of "openChannelIds state"]
  by (simp add: updateChannels_def Let_def map_add_twice)

text \<open>
  C8. Applying a payload of \<^verbatim>\<open>updateChannels\<close> twice gives the same open-channel ids
  and the same channels as applying it once. The open-channel ids after one application
  are the tracked ids followed by the ids of the payload that were not tracked, in the
  payload's order; they have no duplicates when neither the tracked ids nor the payload's
  ids have any. A channel record of the payload replaces the record of the same id, and
  the other records are kept.
\<close>

theorem updateChannels_idempotent:
  "openChannelIds (updateChannels (updateChannels state payload) payload) =
     openChannelIds (updateChannels state payload) \<and>
   channels (updateChannels (updateChannels state payload) payload) =
     channels (updateChannels state payload) \<and>
   openChannelIds (updateChannels state payload) =
     openChannelIds state @
       filter (\<lambda>id. id \<notin> set (openChannelIds state)) (payload_ids payload) \<and>
   (distinct (openChannelIds state) \<and> distinct (payload_ids payload) \<longrightarrow>
      distinct (openChannelIds (updateChannels state payload))) \<and>
   channels (updateChannels state payload) k =
     (case payload_channels payload of
        None \<Rightarrow> channels state k
      | Some cs \<Rightarrow> (case cs k of None \<Rightarrow> channels state k | Some c \<Rightarrow> Some c))"
proof (intro conjI)
  show "distinct (openChannelIds state) \<and> distinct (payload_ids payload) \<longrightarrow>
      distinct (openChannelIds (updateChannels state payload))"
    by (auto simp: updateChannels_def Let_def payload_ids_def split: option.splits)
  show "channels (updateChannels state payload) k =
     (case payload_channels payload of
        None \<Rightarrow> channels state k
      | Some cs \<Rightarrow> (case cs k of None \<Rightarrow> channels state k | Some c \<Rightarrow> Some c))"
    by (simp add: updateChannels_def Let_def map_add_def split: option.splits)
qed (simp_all add: updateChannels_twice, simp add: updateChannels_def Let_def payload_ids_def)

text \<open>
  A payload that names the untracked channel \<open>ch1\<close> twice: both occurrences are
  appended.
\<close>

theorem updateChannels_idempotent_counterexample:
  "openChannelIds (updateChannels lightningModel channels_payload_twice) = [''ch1'', ''ch1''] \<and>
   \<not> distinct (openChannelIds (updateChannels lightningModel channels_payload_twice))"
  by (simp add: updateChannels_def channels_payload_twice_def lightningModel_def)

text \<open>A payload that names \<open>ch1\<close> once, applied once and twice to the initial store.\<close>

theorem updateChannels_idempotent_witness:
  "distinct (openChannelIds lightningModel) \<and> distinct (payload_ids channels_payload_one) \<and>
   openChannelIds (updateChannels lightningModel channels_payload_one) = [''ch1''] \<and>
   openChannelIds (updateChannels (updateChannels lightningModel channels_payload_one)
     channels_payload_one) = [''ch1''] \<and>
   channels (updateChannels lightningModel channels_payload_one) ''ch1'' = Some channel_one"
  using updateChannels_idempotent [of lightningModel channels_payload_one "''ch1''"]
  by (simp add: updateChannels_def channels_payload_one_def payload_ids_def lightningModel_def)

section \<open>Deleting an address of a contact\<close>

lemma map_throwing_Inr:
  "map_throwing f xs = Inr ys \<longleftrightarrow> list_all2 (\<lambda>x y. f x = Inr y) xs ys"
proof (induction xs arbitrary: ys)
  case Nil
  then show ?case by auto
next
  case (Cons x xs)
  show ?case
    by (cases "f x"; cases "map_throwing f xs")
       (auto simp: list_all2_Cons1 Cons.IH [symmetric])
qed

lemma list_all2_right_ex: "list_all2 R xs ys \<Longrightarrow> y \<in> set ys \<Longrightarrow> \<exists>x \<in> set xs. R x y"
  by (induction rule: list_all2_induct) auto

lemma set_remove_first: "set (remove_first P xs) \<subseteq> set xs"
  by (induction xs) auto

lemma deleteContactAddress_Inr:
  assumes "deleteContactAddress state contactId addressId = Inr state'"
  shows "list_all2
      (\<lambda>c c'. c' = c\<lparr>identifiers :=
                       (if contact_id c = contactId then Some (without_address addressId c)
                        else identifiers c),
                     items := Some (without_address addressId c)\<rparr>)
      (contacts state) (contacts state')"
proof -
  let ?f1 = "\<lambda>contact.
                if contact_id contact = contactId
                then (case filter_identifiers addressId contact of
                        Inl e \<Rightarrow> Inl e
                      | Inr updatedIdentifiers \<Rightarrow>
                          Inr (contact\<lparr>identifiers := Some updatedIdentifiers\<rparr>))
                else Inr contact"
  let ?f2 = "\<lambda>contact.
                     case filter_identifiers addressId contact of
                       Inl e \<Rightarrow> Inl e
                     | Inr updatedIdentifiers \<Rightarrow>
                         Inr (contact\<lparr>items := Some updatedIdentifiers\<rparr>)"
  from assms obtain cs1 where
    m1: "map_throwing ?f1 (contacts state) = Inr cs1" and
    m2: "map_throwing ?f2 cs1 = Inr (contacts state')"
    by (auto simp: deleteContactAddress_def split: sum.splits)
  have r1: "list_all2 (\<lambda>x y. ?f1 x = Inr y) (contacts state) cs1"
    using m1 by (simp only: map_throwing_Inr)
  have r2: "list_all2 (\<lambda>x y. ?f2 x = Inr y) cs1 (contacts state')"
    using m2 by (simp only: map_throwing_Inr)
  have "list_all2 ((\<lambda>x y. ?f1 x = Inr y) OO (\<lambda>x y. ?f2 x = Inr y)) (contacts state) (contacts state')"
    using r1 r2 by (auto simp: list.rel_compp)
  then show ?thesis
  proof (rule list_all2_mono)
    fix c c'
    assume "((\<lambda>x y. ?f1 x = Inr y) OO (\<lambda>x y. ?f2 x = Inr y)) c c'"
    then obtain d where d1: "?f1 c = Inr d" and d2: "?f2 d = Inr c'" by auto
    show "c' = c\<lparr>identifiers :=
                       (if contact_id c = contactId then Some (without_address addressId c)
                        else identifiers c),
                     items := Some (without_address addressId c)\<rparr>"
      using d1 d2
      by (auto simp: filter_identifiers_def without_address_def identifiers_or_empty_def
          split: if_splits option.splits sum.splits)
  qed
qed

section \<open>Distinct identifier ids\<close>

lemma identifiers_unique_addContact:
  "identifiers_unique state \<Longrightarrow> distinct (map identifier_id (identifiers_or_empty payload)) \<Longrightarrow>
   identifiers_unique (addContact state payload)"
  by (simp add: identifiers_unique_def addContact_def)

lemma identifiers_unique_updateContact:
  assumes "identifiers_unique state"
    and "distinct (map identifier_id (identifiers_or_empty updatedContact))"
    and "\<forall>contact \<in> set (contacts state).
        contact_id contact = contactId \<longrightarrow>
        identifier_id ` set (identifiers_or_empty contact) \<inter>
        identifier_id ` set (identifiers_or_empty updatedContact) = {}"
  shows "identifiers_unique (updateContact state contactId updatedContact)"
proof -
  have "distinct (map identifier_id (identifiers_or_empty (merge_contact c updatedContact)))"
    if "c \<in> set (contacts state)" "contact_id c = contactId" for c
    using that assms
    by (auto simp: identifiers_unique_def list_all_iff merge_contact_def identifiers_or_empty_def
        split: option.splits)
  then show ?thesis
    using assms(1)
    by (auto simp: identifiers_unique_def list_all_iff updateContact_def)
qed

lemma identifiers_unique_deleteContact:
  "identifiers_unique state \<Longrightarrow> identifiers_unique (deleteContact state payload)"
  using set_remove_first [of "\<lambda>contact. contact_id contact = payload" "contacts state"]
  by (auto simp: identifiers_unique_def list_all_iff deleteContact_def)

lemma identifiers_unique_deleteContactAddress:
  assumes "identifiers_unique state"
    and "deleteContactAddress state contactId addressId = Inr state'"
  shows "identifiers_unique state'"
proof -
  have rel: "list_all2
      (\<lambda>c c'. c' = c\<lparr>identifiers :=
                       (if contact_id c = contactId then Some (without_address addressId c)
                        else identifiers c),
                     items := Some (without_address addressId c)\<rparr>)
      (contacts state) (contacts state')"
    using assms(2) by (rule deleteContactAddress_Inr)
  have "distinct (map identifier_id (identifiers_or_empty c'))" if mem: "c' \<in> set (contacts state')" for c'
  proof -
    obtain c where c: "c \<in> set (contacts state)"
      and c': "c' = c\<lparr>identifiers :=
                       (if contact_id c = contactId then Some (without_address addressId c)
                        else identifiers c),
                     items := Some (without_address addressId c)\<rparr>"
      using list_all2_right_ex [OF rel mem] by blast
    have "distinct (map identifier_id (identifiers_or_empty c))"
      using assms(1) c by (simp add: identifiers_unique_def list_all_iff)
    then show ?thesis
      by (simp add: c' identifiers_or_empty_def without_address_def distinct_map_filter)
  qed
  then show ?thesis by (simp add: identifiers_unique_def list_all_iff)
qed

text \<open>
  C9. In every state reachable from the initial state through \<^verbatim>\<open>addContact\<close>,
  \<^verbatim>\<open>updateContact\<close>, \<^verbatim>\<open>deleteContact\<close> and \<^verbatim>\<open>deleteContactAddress\<close>, when every
  added contact has identifiers of pairwise distinct ids and every update carries
  identifiers of pairwise distinct ids that the contacts it updates do not have yet, the
  identifiers within each contact have pairwise distinct ids. The store itself does not
  compare identifier ids.
\<close>

theorem contacts_identifiers_unique:
  "contacts_reachable_fresh state \<Longrightarrow> identifiers_unique state"
proof (induction rule: contacts_reachable_fresh.induct)
  case fresh_init
  show ?case by (simp add: identifiers_unique_def lightningModel_def)
next
  case (fresh_addContact state payload)
  then show ?case by (simp add: identifiers_unique_addContact)
next
  case (fresh_updateContact state updatedContact contactId)
  then show ?case by (simp add: identifiers_unique_updateContact)
next
  case (fresh_deleteContact state payload)
  then show ?case by (simp add: identifiers_unique_deleteContact)
next
  case (fresh_deleteContactAddress state contactId addressId state')
  then show ?case by (blast intro: identifiers_unique_deleteContactAddress)
qed

text \<open>
  The same address payload dispatched twice for the contact \<open>c1\<close>: the state is
  reachable and the contact holds the identifier \<open>b2\<close> twice.
\<close>

theorem contacts_identifiers_unique_counterexample:
  "contacts_reachable store_alice_BB \<and> \<not> identifiers_unique store_alice_BB"
proof
  show "contacts_reachable store_alice_BB"
    unfolding store_alice_BB_def store_alice_B_def
    by (intro reach_updateContact reach_addContact reach_init)
  show "\<not> identifiers_unique store_alice_BB"
    by (simp add: identifiers_unique_def store_alice_BB_def store_alice_B_def updateContact_def
        addContact_def merge_contact_def identifiers_or_empty_def contact_alice_def
        add_address_B_def lightningModel_def ident_A_def ident_B_def)
qed

text \<open>The address payload dispatched once: the ids \<open>a1\<close> and \<open>b2\<close> are distinct.\<close>

theorem contacts_identifiers_unique_witness:
  "contacts_reachable_fresh store_alice_B \<and> identifiers_unique store_alice_B \<and>
   map identifiers (contacts store_alice_B) = [Some [ident_A, ident_B]]"
proof -
  have step1: "contacts_reachable_fresh (addContact lightningModel contact_alice)"
    by (rule fresh_addContact [OF fresh_init])
       (simp add: identifiers_or_empty_def contact_alice_def)
  have r: "contacts_reachable_fresh store_alice_B"
    unfolding store_alice_B_def
    by (rule fresh_updateContact [OF step1])
       (simp_all add: identifiers_or_empty_def contact_alice_def add_address_B_def addContact_def
          lightningModel_def ident_A_def ident_B_def)
  have "map identifiers (contacts store_alice_B) = [Some [ident_A, ident_B]]"
    by (simp add: store_alice_B_def updateContact_def addContact_def merge_contact_def
        identifiers_or_empty_def contact_alice_def add_address_B_def lightningModel_def)
  with r contacts_identifiers_unique [OF r] show ?thesis by simp
qed

section \<open>The contacts an address is deleted from\<close>

text \<open>
  C10. Two stores on which \<^verbatim>\<open>deleteContactAddress\<close> for the contact \<open>c1\<close> and the
  address \<open>a1\<close> leaves an identifier of id \<open>a1\<close> in the store. On the first, the
  contacts \<open>c1\<close> and \<open>c2\<close> both hold the identifier \<open>a1\<close>: the second pass filters the
  identifiers of \<open>c2\<close> but stores the result under \<^verbatim>\<open>items\<close>, so that \<open>c2\<close> still
  holds \<open>a1\<close> among its \<^verbatim>\<open>identifiers\<close>. On the second, a third contact has no
  identifiers list: the action throws a TypeError instead of producing a state, so that
  the address is not deleted from the named contact \<open>c1\<close> either.
\<close>

theorem deleteContactAddress_keeps_other_contacts:
  "deleteContactAddress store_contacts ''c1'' ''a1'' =
     Inr (store_contacts\<lparr>contacts :=
            [contact_alice\<lparr>identifiers := Some [], items := Some []\<rparr>,
             contact_bob\<lparr>items := Some []\<rparr>]\<rparr>) \<and>
   identifiers (contact_bob\<lparr>items := Some []\<rparr>) = Some [ident_A] \<and>
   identifier_id ident_A = ''a1'' \<and>
   deleteContactAddress (addContact store_contacts contact_carol) ''c1'' ''a1'' = Inl TypeError"
  by (simp add: deleteContactAddress_def filter_identifiers_def store_contacts_def addContact_def
      contact_alice_def contact_bob_def contact_carol_def ident_A_def)

end
